theory Spec2Isabelle
  imports Main
begin

section \<open>JavaScript values\<close>

text \<open>
  The classes of thrown objects the dispatch code tells apart with \<open>instanceof\<close>.
  \<open>TypeError\<close> is the engine's own error for a property read on \<open>undefined\<close>;
  \<open>OtherError\<close> carries the name of any other class (a validation error, a
  fetch error raised inside a callback, ...).
\<close>

datatype error_class =
    NotFoundControllerError
  | NotImplementedControllerError
  | TypeError
  | OtherError string

text \<open>
  The values that travel through the handler: request fields, validated input, response
  bodies and thrown values (JavaScript can throw any value). An object is the list of
  its own enumerable properties in insertion order; an \<open>Error\<close> instance is its class
  and its \<open>message\<close>. Numbers are opaque to this code and kept as integers. The values
  are finite trees without \<open>BigInt\<close>: each of them has a JSON serialisation.
\<close>

datatype js_value =
    JUndefined
  | JNull
  | JBool bool
  | JNum int
  | JStr string
  | JArr "js_value list"
  | JObj "(string \<times> js_value) list"
  | JError error_class string

type_synonym props = "(string \<times> js_value) list"

text \<open>A settled promise: \<open>Inl\<close> is a rejection (or a throw), \<open>Inr\<close> the value.\<close>

type_synonym outcome = "js_value + js_value"

text \<open>\<open>new NotFoundControllerError()\<close> and \<open>new NotImplementedControllerError()\<close>.\<close>

definition new_NotFoundControllerError :: js_value where
  "new_NotFoundControllerError = JError NotFoundControllerError ''Not Found''"

definition new_NotImplementedControllerError :: js_value where
  "new_NotImplementedControllerError = JError NotImplementedControllerError ''Not Implemented''"

text \<open>\<open>error instanceof C\<close>: only an \<open>Error\<close> instance of class \<open>C\<close> passes.\<close>

fun instanceof :: "js_value \<Rightarrow> error_class \<Rightarrow> bool" where
  "instanceof (JError c m) k = (c = k)"
| "instanceof _ _ = False"

subsection \<open>Objects: property assignment and spread\<close>

text \<open>
  \<open>o[k] = v\<close> on a property list: an existing key keeps its place and takes the new
  value, a new key is appended.
\<close>

fun set_prop :: "string \<Rightarrow> 'v \<Rightarrow> (string \<times> 'v) list \<Rightarrow> (string \<times> 'v) list" where
  "set_prop k v [] = [(k, v)]"
| "set_prop k v ((k', v') # ps) =
     (if k' = k then (k, v) # ps else (k', v') # set_prop k v ps)"

text \<open>
  \<open>...src\<close> inside an object literal: every own enumerable property of \<open>src\<close>, in
  order, is assigned on the object under construction.
\<close>

fun spread :: "(string \<times> 'v) list \<Rightarrow> (string \<times> 'v) list \<Rightarrow> (string \<times> 'v) list" where
  "spread target [] = target"
| "spread target ((k, v) # src) = spread (set_prop k v target) src"

text \<open>Decimal rendering of an array index, as a property key.\<close>

definition digit :: "nat \<Rightarrow> char" where
  "digit d = ''0123456789'' ! d"

function index_key :: "nat \<Rightarrow> string" where
  "index_key n = (if n < 10 then [digit n] else index_key (n div 10) @ [digit (n mod 10)])"
  by pat_completeness auto
termination
  by (relation "measure id") auto

declare index_key.simps [simp del]

text \<open>
  The own enumerable properties a spread copies from a value: the properties of an
  object, the indexed elements of an array, the indexed code units of a string, and
  nothing from \<open>undefined\<close>, \<open>null\<close>, a boolean or a number. The \<open>message\<close> of an
  \<open>Error\<close> is not enumerable.
\<close>

fun own_props :: "js_value \<Rightarrow> props" where
  "own_props (JObj ps) = ps"
| "own_props (JArr xs) = zip (map index_key [0..<length xs]) xs"
| "own_props (JStr s) = zip (map index_key [0..<length s]) (map (\<lambda>c. JStr [c]) s)"
| "own_props _ = []"

subsection \<open>The canonical response bodies\<close>

text \<open>The three members of \<open>ApiReturns\<close>.\<close>

definition ApiReturns_ok :: js_value where
  "ApiReturns_ok = JObj [(''ok'', JBool True)]"

definition ApiReturns_error :: js_value where
  "ApiReturns_error = JObj [(''ok'', JBool False)]"

definition ApiReturns_notFound :: js_value where
  "ApiReturns_notFound = JObj [(''ok'', JBool False), (''message'', JStr ''Not Found'')]"

section \<open>Requests, responses and handlers\<close>

text \<open>
  What the handler reads of a \<open>NextApiRequest\<close>: \<open>method\<close> (a string or \<open>undefined\<close>),
  \<open>query\<close> (always an object) and \<open>body\<close> (any value).
\<close>

record NextApiRequest =
  req_method :: "string option"
  query :: props
  body :: js_value

text \<open>
  What the handler does to a \<open>NextApiResponse\<close>. \<open>sent\<close> is the log of what was sent,
  oldest first; a response with a non-empty log has sent its headers.
  \<open>status(code)\<close> assigns the status code and returns the response for chaining; it
  never fails. \<open>json(body)\<close> sets the content type and sends the body under the current
  status code; once a response has been sent, setting a header throws, and nothing more
  is sent. (Its other failure, a body without a JSON serialisation, does not arise for
  the values modelled.)
\<close>

record NextApiResponse =
  statusCode :: nat
  sent :: "(nat \<times> js_value) list"

definition headers_sent_Error :: js_value where
  "headers_sent_Error =
     JError (OtherError ''ERR_HTTP_HEADERS_SENT'')
       ''Cannot set headers after they are sent to the client''"

definition res_status :: "NextApiResponse \<Rightarrow> nat \<Rightarrow> NextApiResponse" where
  "res_status res code = res\<lparr>statusCode := code\<rparr>"

definition res_json :: "NextApiResponse \<Rightarrow> js_value \<Rightarrow> js_value + NextApiResponse" where
  "res_json res b =
     (if sent res = [] then Inr (res\<lparr>sent := sent res @ [(statusCode res, b)]\<rparr>)
      else Inl headers_sent_Error)"

text \<open>
  The statement \<open>return res.status(code).json(body)\<close> where no \<open>try\<close> encloses it: the
  function resolves to \<open>undefined\<close> when the body was sent, and rejects with what \<open>json\<close>
  threw otherwise, the status code already assigned.
\<close>

definition respond :: "NextApiResponse \<Rightarrow> nat \<Rightarrow> js_value \<Rightarrow> (js_value + js_value) \<times> NextApiResponse" where
  "respond res code b =
     (case res_json (res_status res code) b of
        Inl err \<Rightarrow> (Inl err, res_status res code)
      | Inr res' \<Rightarrow> (Inr JUndefined, res'))"

text \<open>
  An \<open>ObjectSchema\<close> is used only through \<open>validate\<close>, which resolves to the coerced
  value or rejects.
\<close>

record ObjectSchema =
  validate :: "js_value \<Rightarrow> outcome"

text \<open>
  \<open>ApiCallbackContext\<close>. Its \<open>res\<close> member is the response the callback writes to; here
  the response is threaded through the callback as state. A callback settles: it
  resolves to a value or rejects, having written to the response what it chose to.
\<close>

record ApiCallbackContext =
  input :: js_value
  req :: NextApiRequest

record RequestHandler =
  schema :: ObjectSchema
  callback :: "ApiCallbackContext \<Rightarrow> NextApiResponse \<Rightarrow> outcome \<times> NextApiResponse"

datatype ApiMethods = GET | POST | PUT | DELETE | OPTIONS

fun method_name :: "ApiMethods \<Rightarrow> string" where
  "method_name GET = ''GET''"
| "method_name POST = ''POST''"
| "method_name PUT = ''PUT''"
| "method_name DELETE = ''DELETE''"
| "method_name OPTIONS = ''OPTIONS''"

subsection \<open>Property lookup on the handler table\<close>

text \<open>
  The table \<open>requests\<close> is created by the literal \<open>{}\<close>: an ordinary object whose
  prototype is \<open>Object.prototype\<close>. \<open>requests[name]\<close> therefore yields an own property
  when there is one, a member of \<open>Object.prototype\<close> when \<open>name\<close> is one of its keys,
  and \<open>undefined\<close> otherwise.
\<close>

type_synonym table = "(string \<times> RequestHandler) list"

definition Object_prototype_keys :: "string list" where
  "Object_prototype_keys =
     [''constructor'', ''__defineGetter__'', ''__defineSetter__'', ''hasOwnProperty'',
      ''__lookupGetter__'', ''__lookupSetter__'', ''isPrototypeOf'',
      ''propertyIsEnumerable'', ''toString'', ''valueOf'', ''__proto__'',
      ''toLocaleString'']"

datatype property = Undefined | OwnProperty RequestHandler | PrototypeMember

definition get_property :: "table \<Rightarrow> string \<Rightarrow> property" where
  "get_property tbl name =
     (case map_of tbl name of
        Some request \<Rightarrow> OwnProperty request
      | None \<Rightarrow> if name \<in> set Object_prototype_keys then PrototypeMember else Undefined)"

text \<open>\<open>req.method as string\<close> used as a property key: \<open>undefined\<close> reads the key \<open>undefined\<close>.\<close>

fun property_key :: "string option \<Rightarrow> string" where
  "property_key None = ''undefined''"
| "property_key (Some name) = name"

text \<open>
  The test \<open>!request\<close>: \<open>undefined\<close> is falsy; a handler record is truthy, and so is
  every member of \<open>Object.prototype\<close> (functions, and the prototype itself under
  \<open>__proto__\<close>).
\<close>

fun truthy :: "property \<Rightarrow> bool" where
  "truthy Undefined = False"
| "truthy (OwnProperty request) = True"
| "truthy PrototypeMember = True"

text \<open>
  \<open>request.schema.validate(candidate)\<close> and \<open>request.callback(ctx)\<close>. On a handler record
  they call its schema and its callback. A member of \<open>Object.prototype\<close> has neither
  \<open>schema\<close> nor \<open>callback\<close>, so either call throws a \<open>TypeError\<close> (the messages are the
  engine's).
\<close>

definition undefined_schema_TypeError :: js_value where
  "undefined_schema_TypeError = JError TypeError ''Cannot read properties of undefined''"

definition undefined_callback_TypeError :: js_value where
  "undefined_callback_TypeError = JError TypeError ''request.callback is not a function''"

fun request_schema_validate :: "property \<Rightarrow> js_value \<Rightarrow> outcome" where
  "request_schema_validate (OwnProperty request) candidate = validate (schema request) candidate"
| "request_schema_validate PrototypeMember candidate = Inl undefined_schema_TypeError"
| "request_schema_validate Undefined candidate = Inl undefined_schema_TypeError"

fun request_callback ::
  "property \<Rightarrow> ApiCallbackContext \<Rightarrow> NextApiResponse \<Rightarrow> outcome \<times> NextApiResponse" where
  "request_callback (OwnProperty request) ctx res = callback request ctx res"
| "request_callback PrototypeMember ctx res = (Inl undefined_callback_TypeError, res)"
| "request_callback Undefined ctx res = (Inl undefined_callback_TypeError, res)"

subsection \<open>The dispatch function\<close>

text \<open>
  The body of \<open>handler\<close>, over the table it closed over: the lookup and its guard, the
  first \<open>try\<close> around the validation of \<open>{ ...req.query, ...req.body }\<close>, the second \<open>try\<close>
  around the callback with its three-way \<open>catch\<close>. The five \<open>return res.status(c).json(b)\<close>
  stand after the guard and inside the \<open>catch\<close> blocks, outside every \<open>try\<close>: a throw of
  \<open>json\<close> there rejects the handler.
\<close>

definition handler ::
  "table \<Rightarrow> NextApiRequest \<Rightarrow> NextApiResponse \<Rightarrow> outcome \<times> NextApiResponse" where
  "handler tbl rq res =
     (let request = get_property tbl (property_key (req_method rq)) in
      if \<not> truthy request
      then respond res 405 ApiReturns_error
      else
        (case request_schema_validate request
                (JObj (spread (spread [] (query rq)) (own_props (body rq)))) of
           Inl error \<Rightarrow>
             respond res 400
               (JObj (set_prop ''error'' error (spread [] (own_props ApiReturns_error))))
         | Inr inp \<Rightarrow>
             (case request_callback request \<lparr>input = inp, req = rq\<rparr> res of
                (Inr result, res') \<Rightarrow> (Inr result, res')
              | (Inl error, res') \<Rightarrow>
                  if instanceof error NotFoundControllerError
                  then respond res' 404 ApiReturns_notFound
                  else if instanceof error NotImplementedControllerError
                  then respond res' 405 ApiReturns_error
                  else respond res' 500 ApiReturns_error)))"

section \<open>The builder\<close>

text \<open>
  Objects live in a store; a reference is an address. \<open>fresh\<close> is the next unused
  address.
\<close>

record store =
  objects :: "nat \<Rightarrow> table"
  fresh :: nat

text \<open>An \<open>ApiBuilder\<close> holds, in its read-only field \<open>requests\<close>, a reference to its table.\<close>

record ApiBuilder =
  requests :: nat

text \<open>\<open>new ApiBuilder()\<close>: the field initialiser allocates the empty table.\<close>

definition new_ApiBuilder :: "store \<Rightarrow> ApiBuilder \<times> store" where
  "new_ApiBuilder s =
     (\<lparr>requests = fresh s\<rparr>,
      s\<lparr>objects := (objects s)(fresh s := []), fresh := Suc (fresh s)\<rparr>)"

text \<open>\<open>this.requests[method] = {schema, callback}; return this\<close>.\<close>

definition method' ::
  "ApiBuilder \<Rightarrow> ApiMethods \<Rightarrow> ObjectSchema
     \<Rightarrow> (ApiCallbackContext \<Rightarrow> NextApiResponse \<Rightarrow> outcome \<times> NextApiResponse)
     \<Rightarrow> store \<Rightarrow> ApiBuilder \<times> store" where
  "method' this m sch cb s =
     (this,
      s\<lparr>objects := (objects s)
           (requests this :=
              set_prop (method_name m) \<lparr>schema = sch, callback = cb\<rparr>
                (objects s (requests this)))\<rparr>)"

definition post ::
  "ApiBuilder \<Rightarrow> ObjectSchema
     \<Rightarrow> (ApiCallbackContext \<Rightarrow> NextApiResponse \<Rightarrow> outcome \<times> NextApiResponse)
     \<Rightarrow> store \<Rightarrow> ApiBuilder \<times> store" where
  "post this sch cb s = method' this POST sch cb s"

definition get ::
  "ApiBuilder \<Rightarrow> ObjectSchema
     \<Rightarrow> (ApiCallbackContext \<Rightarrow> NextApiResponse \<Rightarrow> outcome \<times> NextApiResponse)
     \<Rightarrow> store \<Rightarrow> ApiBuilder \<times> store" where
  "get this sch cb s = method' this GET sch cb s"

definition put ::
  "ApiBuilder \<Rightarrow> ObjectSchema
     \<Rightarrow> (ApiCallbackContext \<Rightarrow> NextApiResponse \<Rightarrow> outcome \<times> NextApiResponse)
     \<Rightarrow> store \<Rightarrow> ApiBuilder \<times> store" where
  "put this sch cb s = method' this PUT sch cb s"

text \<open>
  \<open>build()\<close> copies the reference \<open>this.requests\<close> into the local \<open>requests\<close> and returns
  the closure; the closure reads the object behind that reference when it is called,
  in the store of that moment.
\<close>

definition build ::
  "ApiBuilder \<Rightarrow> store \<Rightarrow> NextApiRequest \<Rightarrow> NextApiResponse \<Rightarrow> outcome \<times> NextApiResponse" where
  "build this = (let tbl_ref = requests this in (\<lambda>s rq res. handler (objects s tbl_ref) rq res))"

section \<open>Outbound fetch helpers\<close>

text \<open>
  A fetch \<open>Response\<close>: its status and what \<open>response.json()\<close> settles to (a rejection
  when the body is not JSON).
\<close>

record Response =
  status :: nat
  json :: outcome

record RequestInit =
  init_method :: string
  init_headers :: "(string \<times> string) list"
  init_body :: "string option"

text \<open>
  What a fetch helper can fail with: the \<open>FetchRequestError\<close> it constructs (the raw
  response and the message), or a rejection of \<open>fetch\<close> or of \<open>response.json()\<close> that
  passes through.
\<close>

datatype fetch_failure = FetchRequestError Response string | Rejected js_value

text \<open>The platform functions the helpers call: \<open>fetch\<close> and \<open>JSON.stringify\<close>.\<close>

record runtime =
  fetch :: "string \<Rightarrow> RequestInit \<Rightarrow> js_value + Response"
  JSON_stringify :: "js_value \<Rightarrow> string option"

datatype post_or_put = Post | Put

fun verb_name :: "post_or_put \<Rightarrow> string" where
  "verb_name Post = ''POST''"
| "verb_name Put = ''PUT''"

definition fetchGet :: "runtime \<Rightarrow> string \<Rightarrow> fetch_failure + js_value" where
  "fetchGet rt url =
     (case fetch rt url
             \<lparr>init_method = ''GET'',
              init_headers = [(''Accept'', ''application/json''),
                              (''Content-Type'', ''application/json;charset=UTF-8'')],
              init_body = None\<rparr> of
        Inl e \<Rightarrow> Inl (Rejected e)
      | Inr response \<Rightarrow>
          if status response \<ge> 300
          then Inl (FetchRequestError response (''Error fetching from '' @ url))
          else (case json response of Inl e \<Rightarrow> Inl (Rejected e) | Inr v \<Rightarrow> Inr v))"

definition fetchPostOrPut ::
  "runtime \<Rightarrow> post_or_put \<Rightarrow> string \<Rightarrow> js_value \<Rightarrow> fetch_failure + js_value" where
  "fetchPostOrPut rt m url data =
     (case fetch rt url
             \<lparr>init_method = verb_name m,
              init_headers = [(''Accept'', ''application/json''),
                              (''Content-Type'', ''application/json;charset=UTF-8'')],
              init_body = JSON_stringify rt data\<rparr> of
        Inl e \<Rightarrow> Inl (Rejected e)
      | Inr response \<Rightarrow>
          if status response \<ge> 300
          then Inl (FetchRequestError response (''Error fetching from '' @ url))
          else (case json response of Inl e \<Rightarrow> Inl (Rejected e) | Inr v \<Rightarrow> Inr v))"

definition fetchPost :: "runtime \<Rightarrow> string \<Rightarrow> js_value \<Rightarrow> fetch_failure + js_value" where
  "fetchPost rt url data = fetchPostOrPut rt Post url data"

definition fetchPut :: "runtime \<Rightarrow> string \<Rightarrow> js_value \<Rightarrow> fetch_failure + js_value" where
  "fetchPut rt url data = fetchPostOrPut rt Put url data"

section \<open>Sample values\<close>

text \<open>Concrete schemas, callbacks, requests and platforms on which the properties are run.\<close>

definition fresh_response :: NextApiResponse where
  "fresh_response = \<lparr>statusCode = 200, sent = []\<rparr>"

definition accept_all :: ObjectSchema where
  "accept_all = \<lparr>validate = (\<lambda>v. Inr v)\<rparr>"

definition rejecting :: "js_value \<Rightarrow> ObjectSchema" where
  "rejecting err = \<lparr>validate = (\<lambda>v. Inl err)\<rparr>"

definition throwing ::
  "js_value \<Rightarrow> ApiCallbackContext \<Rightarrow> NextApiResponse \<Rightarrow> outcome \<times> NextApiResponse" where
  "throwing err ctx res = (Inl err, res)"

definition reply_ok ::
  "ApiCallbackContext \<Rightarrow> NextApiResponse \<Rightarrow> outcome \<times> NextApiResponse" where
  "reply_ok ctx res = respond res 200 ApiReturns_ok"

definition echo_input ::
  "ApiCallbackContext \<Rightarrow> NextApiResponse \<Rightarrow> outcome \<times> NextApiResponse" where
  "echo_input ctx res = respond res 200 (input ctx)"

text \<open>A callback that answers 200 itself and then throws.\<close>

definition answer_then_throw ::
  "js_value \<Rightarrow> ApiCallbackContext \<Rightarrow> NextApiResponse \<Rightarrow> outcome \<times> NextApiResponse" where
  "answer_then_throw err ctx res = (Inl err, snd (respond res 200 ApiReturns_ok))"

definition sample_request :: "string \<Rightarrow> NextApiRequest" where
  "sample_request m =
     \<lparr>req_method = Some m,
      query = [(''limit'', JStr ''5''), (''cursor'', JStr ''a'')],
      body = JObj [(''limit'', JNum 7)]\<rparr>"

definition empty_store :: store where
  "empty_store = \<lparr>objects = (\<lambda>a. []), fresh = 0\<rparr>"

text \<open>A new builder, the store right after its creation, and the store after \<open>get\<close>.\<close>

definition builder0 :: ApiBuilder where
  "builder0 = fst (new_ApiBuilder empty_store)"

definition store0 :: store where
  "store0 = snd (new_ApiBuilder empty_store)"

definition store1 :: store where
  "store1 = snd (get builder0 accept_all reply_ok store0)"

text \<open>A platform whose \<open>fetch\<close> answers every request with the given status.\<close>

definition answering :: "nat \<Rightarrow> runtime" where
  "answering n =
     \<lparr>fetch = (\<lambda>u i. Inr \<lparr>status = n, json = Inr (JStr ''payload'')\<rparr>),
      JSON_stringify = (\<lambda>v. Some ''{}'')\<rparr>"

section \<open>Properties\<close>

lemmas sample_defs =
  fresh_response_def accept_all_def rejecting_def throwing_def reply_ok_def echo_input_def
  answer_then_throw_def sample_request_def empty_store_def builder0_def store0_def store1_def

lemmas handler_defs =
  handler_def Let_def get_property_def Object_prototype_keys_def respond_def res_json_def
  res_status_def
  ApiReturns_error_def ApiReturns_ok_def ApiReturns_notFound_def undefined_schema_TypeError_def

lemmas builder_defs = new_ApiBuilder_def method'_def get_def post_def put_def build_def

subsection \<open>Objects\<close>

lemma map_of_set_prop: "map_of (set_prop k v ps) = (map_of ps)(k \<mapsto> v)"
  by (induction ps) auto

text \<open>Spreading an object onto another is the right-biased union of their properties.\<close>

lemma map_of_spread:
  "distinct (map fst src) \<Longrightarrow> map_of (spread target src) = map_of target ++ map_of src"
proof (induction src arbitrary: target)
  case Nil
  then show ?case by simp
next
  case (Cons p src)
  obtain k v where p: "p = (k, v)" by (cases p)
  from Cons.prems p have unset: "map_of src k = None" and d: "distinct (map fst src)"
    by (auto simp: map_of_eq_None_iff)
  have "map_of (spread target (p # src)) = map_of (set_prop k v target) ++ map_of src"
    using Cons.IH [OF d] p by simp
  also have "\<dots> = (map_of target)(k \<mapsto> v) ++ map_of src"
    by (simp only: map_of_set_prop)
  also have "\<dots> = map_of target ++ map_of (p # src)"
    using unset p by (auto simp: fun_eq_iff map_add_def split: option.splits)
  finally show ?case .
qed

text \<open>
  Index keys are distinct, so the properties a spread copies from a string, an array
  or any other value that is not an object never repeat a key.
\<close>

lemma digit_inj: "d < 10 \<Longrightarrow> e < 10 \<Longrightarrow> digit d = digit e \<Longrightarrow> d = e"
proof -
  assume d: "d < 10" and e: "e < 10" and eq: "digit d = digit e"
  have "distinct ''0123456789''" by simp
  moreover have "d < length ''0123456789''" "e < length ''0123456789''" using d e by simp_all
  ultimately show "d = e" using eq unfolding digit_def by (simp only: nth_eq_iff_index_eq)
qed

lemma index_key_nonempty: "index_key n \<noteq> []"
  by (induction n rule: index_key.induct) (subst index_key.simps, simp)

lemma index_key_inj: "index_key m = index_key n \<Longrightarrow> m = n"
proof (induction m arbitrary: n rule: index_key.induct)
  case (1 m)
  show ?case
  proof (cases "m < 10")
    case True
    then have m: "index_key m = [digit m]" by (subst index_key.simps) simp
    show ?thesis
    proof (cases "n < 10")
      case n: True
      then have "index_key n = [digit n]" by (subst index_key.simps) simp
      with m "1.prems" have "digit m = digit n" by simp
      with True n show ?thesis by (blast intro: digit_inj)
    next
      case n: False
      then have "index_key n = index_key (n div 10) @ [digit (n mod 10)]"
        by (subst index_key.simps) simp
      with m show ?thesis using "1.prems" index_key_nonempty [of "n div 10"] by simp
    qed
  next
    case False
    then have m: "index_key m = index_key (m div 10) @ [digit (m mod 10)]"
      by (subst index_key.simps) simp
    show ?thesis
    proof (cases "n < 10")
      case n: True
      then have "index_key n = [digit n]" by (subst index_key.simps) simp
      with m show ?thesis using "1.prems" index_key_nonempty [of "m div 10"] by simp
    next
      case n: False
      then have "index_key n = index_key (n div 10) @ [digit (n mod 10)]"
        by (subst index_key.simps) simp
      with m "1.prems" have a: "index_key (m div 10) = index_key (n div 10)"
        and b: "digit (m mod 10) = digit (n mod 10)" by simp_all
      from "1.IH" [OF False a] have "m div 10 = n div 10" .
      moreover from b have "m mod 10 = n mod 10" by (intro digit_inj) simp_all
      ultimately show ?thesis by (metis div_mult_mod_eq)
    qed
  qed
qed

lemma distinct_index_keys: "distinct (map index_key [0..<k])"
proof -
  have "inj_on index_key (set [0..<k])"
    by (rule inj_onI) (rule index_key_inj)
  then show ?thesis by (simp add: distinct_map)
qed

lemma distinct_own_props:
  "(\<And>ps. v = JObj ps \<Longrightarrow> distinct (map fst ps)) \<Longrightarrow> distinct (map fst (own_props v))"
  by (cases v) (simp_all add: distinct_index_keys)

subsection \<open>The builder and the table it shares\<close>

text \<open>A built dispatch function, called in store \<open>s\<close>, runs \<open>handler\<close> on the table found there.\<close>

lemma build_handler: "build this s rq res = handler (objects s (requests this)) rq res"
  by (simp add: build_def)

text \<open>
  C1, as stated, fails. The dispatch function is built from a new builder before any
  registration. Called on a \<open>GET\<close> request before \<open>get\<close> is registered it answers 405;
  the same function, called after \<open>get\<close> was registered on the builder, answers with the
  registered callback's 200.
\<close>

theorem build_not_snapshot_counterexample:
  "sent (snd (build builder0 store0 (sample_request ''GET'') fresh_response)) =
     [(405, ApiReturns_error)] \<and>
   sent (snd (build builder0 store1 (sample_request ''GET'') fresh_response)) =
     [(200, ApiReturns_ok)]"
  by (simp add: sample_defs handler_defs builder_defs)

text \<open>
  C1, amended. A dispatch function returned by \<open>build()\<close> holds a reference to the
  builder's one handler table and reads it at every request. Building again after a
  registration gives the same dispatch function; an already-built dispatch function
  called after \<open>method(m, schema, callback)\<close> runs on the table with that entry written,
  and its lookup of \<open>m\<close> finds the new entry.
\<close>

theorem build_reads_shared_table:
  "build (fst (method' this m sch cb s)) = build this \<and>
   build this (snd (method' this m sch cb s)) rq res =
     handler
       (set_prop (method_name m) \<lparr>schema = sch, callback = cb\<rparr> (objects s (requests this)))
       rq res \<and>
   get_property (objects (snd (method' this m sch cb s)) (requests this)) (method_name m) =
     OwnProperty \<lparr>schema = sch, callback = cb\<rparr>"
  by (simp add: builder_defs get_property_def map_of_set_prop)

subsection \<open>Errors thrown by a callback\<close>



subsection \<open>Methods without a registered entry\<close>

text \<open>
  A method that is neither a key of the table nor the name of a member of
  \<open>Object.prototype\<close> is answered with \<open>res.status(405).json({ok:false})\<close> on the response
  as it was given: no validator and no callback has run.
\<close>

lemma unregistered_method_405:
  "map_of tbl (property_key (req_method rq)) = None \<Longrightarrow>
   property_key (req_method rq) \<notin> set Object_prototype_keys \<Longrightarrow>
   handler tbl rq res = respond res 405 ApiReturns_error"
  by (simp add: handler_def Let_def get_property_def)

text \<open>
  C3 on the code. The dispatch function of a new builder has no registered entry at all.
  Asked for the method \<open>constructor\<close> it does not answer 405: the lookup finds the member
  inherited from \<open>Object.prototype\<close>, and the answer is 400 with the \<open>TypeError\<close> attached.
\<close>

theorem inherited_member_answers_400:
  "build builder0 store0
     \<lparr>req_method = Some ''constructor'', query = [], body = JUndefined\<rparr> fresh_response =
   (Inr JUndefined,
    \<lparr>statusCode = 400,
     sent = [(400, JObj [(''ok'', JBool False),
                         (''error'', JError TypeError ''Cannot read properties of undefined'')])]\<rparr>)"
  by (simp add: sample_defs handler_defs builder_defs)

text \<open>
  C9 on the code. With \<open>GET\<close> the only registered method, the lookup is case-sensitive
  (\<open>get\<close> is answered 405), but \<open>toString\<close>, which also differs from every registered key,
  is answered 400.
\<close>

theorem exact_match_except_inherited_names:
  "sent (snd (build builder0 store1 (sample_request ''get'') fresh_response)) =
     [(405, JObj [(''ok'', JBool False)])] \<and>
   sent (snd (build builder0 store1 (sample_request ''toString'') fresh_response)) =
     [(400, JObj [(''ok'', JBool False),
                  (''error'', JError TypeError ''Cannot read properties of undefined'')])]"
  by (simp add: sample_defs handler_defs builder_defs)

subsection \<open>Validation\<close>

text \<open>
  C4. For a request with a registered method, whose query and body list no key twice
  (as every object does, and by \<open>distinct_own_props\<close> every body that is not an object):
  the value given to the validator is the merge of query and body, a key of the body
  overriding the same key of the query. When the validator rejects with \<open>err\<close>, the layer
  issues \<open>res.status(400).json({ok:false, error: err})\<close> on the response as it was given,
  so the callback has not run; on a response on which nothing was sent yet, that 400 is
  sent and the dispatch function resolves to \<open>undefined\<close>. When the validator resolves to
  \<open>inp\<close>, the callback is called with \<open>inp\<close> as its input, and what it returns is the
  result.
\<close>

theorem validation_pipeline:
  assumes "get_property tbl (property_key (req_method rq)) = OwnProperty request"
    and "distinct (map fst (query rq))"
    and "distinct (map fst (own_props (body rq)))"
  shows
   "map_of (spread (spread [] (query rq)) (own_props (body rq))) =
      map_of (query rq) ++ map_of (own_props (body rq)) \<and>
    (\<forall>err. validate (schema request)
             (JObj (spread (spread [] (query rq)) (own_props (body rq)))) = Inl err \<longrightarrow>
       handler tbl rq res =
         respond res 400 (JObj [(''ok'', JBool False), (''error'', err)]) \<and>
       (sent res = [] \<longrightarrow>
          handler tbl rq res =
            (Inr JUndefined,
             res\<lparr>statusCode := 400,
                 sent := [(400, JObj [(''ok'', JBool False), (''error'', err)])]\<rparr>))) \<and>
    (\<forall>inp. validate (schema request)
             (JObj (spread (spread [] (query rq)) (own_props (body rq)))) = Inr inp \<longrightarrow>
       (\<forall>result res'. callback request \<lparr>input = inp, req = rq\<rparr> res = (Inr result, res') \<longrightarrow>
          handler tbl rq res = (Inr result, res')))"
proof (intro conjI allI impI)
  show "map_of (spread (spread [] (query rq)) (own_props (body rq))) =
      map_of (query rq) ++ map_of (own_props (body rq))"
    using assms(2,3) by (simp add: map_of_spread)
next
  fix err
  assume "validate (schema request)
            (JObj (spread (spread [] (query rq)) (own_props (body rq)))) = Inl err"
  with assms(1) show "handler tbl rq res =
         respond res 400 (JObj [(''ok'', JBool False), (''error'', err)])"
    by (simp add: handler_def Let_def ApiReturns_error_def)
next
  fix err
  assume "validate (schema request)
            (JObj (spread (spread [] (query rq)) (own_props (body rq)))) = Inl err"
    and "sent res = []"
  with assms(1) show "handler tbl rq res =
            (Inr JUndefined,
             res\<lparr>statusCode := 400,
                 sent := [(400, JObj [(''ok'', JBool False), (''error'', err)])]\<rparr>)"
    by (simp add: handler_def Let_def ApiReturns_error_def respond_def res_json_def
        res_status_def)
next
  fix inp result res'
  assume "validate (schema request)
            (JObj (spread (spread [] (query rq)) (own_props (body rq)))) = Inr inp"
    and "callback request \<lparr>input = inp, req = rq\<rparr> res = (Inr result, res')"
  with assms(1) show "handler tbl rq res = (Inr result, res')"
    by (simp add: handler_def Let_def)
qed

text \<open>
  On the sample request (query \<open>{limit:"5", cursor:"a"}\<close>, body \<open>{limit:7}\<close>): the merged
  input has the body's \<open>limit\<close> and the query's \<open>cursor\<close>, a callback that echoes its input
  sends exactly that, and a rejecting schema gives the 400.
\<close>

theorem validation_pipeline_witness:
  "map_of (spread (spread [] (query (sample_request ''GET'')))
             (own_props (body (sample_request ''GET'')))) ''limit'' = Some (JNum 7) \<and>
   map_of (spread (spread [] (query (sample_request ''GET'')))
             (own_props (body (sample_request ''GET'')))) ''cursor'' = Some (JStr ''a'') \<and>
   handler [(''GET'', \<lparr>schema = accept_all, callback = echo_input\<rparr>)]
       (sample_request ''GET'') fresh_response =
     (Inr JUndefined,
      \<lparr>statusCode = 200,
       sent = [(200, JObj [(''limit'', JNum 7), (''cursor'', JStr ''a'')])]\<rparr>) \<and>
   handler [(''GET'', \<lparr>schema = rejecting (JStr ''limit must be a number''),
                       callback = echo_input\<rparr>)]
       (sample_request ''GET'') fresh_response =
     (Inr JUndefined,
      \<lparr>statusCode = 400,
       sent = [(400, JObj [(''ok'', JBool False),
                           (''error'', JStr ''limit must be a number'')])]\<rparr>)"
proof -
  let ?rq = "sample_request ''GET''"
  have d: "distinct (map fst (query ?rq))" "distinct (map fst (own_props (body ?rq)))"
    by (simp_all add: sample_request_def)
  have ok: "get_property [(''GET'', \<lparr>schema = accept_all, callback = echo_input\<rparr>)]
              (property_key (req_method ?rq)) =
            OwnProperty \<lparr>schema = accept_all, callback = echo_input\<rparr>"
    by (simp add: get_property_def sample_request_def)
  have bad: "get_property
               [(''GET'', \<lparr>schema = rejecting (JStr ''limit must be a number''),
                           callback = echo_input\<rparr>)]
               (property_key (req_method ?rq)) =
             OwnProperty \<lparr>schema = rejecting (JStr ''limit must be a number''),
                          callback = echo_input\<rparr>"
    by (simp add: get_property_def sample_request_def)
  show ?thesis
    using validation_pipeline [OF ok d, of fresh_response]
      validation_pipeline [OF bad d, of fresh_response]
    by (simp add: sample_request_def accept_all_def rejecting_def echo_input_def
        fresh_response_def respond_def res_json_def res_status_def)
qed

text \<open>
  C10. The mapping of marker errors to 404 and 405 belongs to the callback phase only.
  When the validator of a registered handler rejects with a \<open>NotFoundControllerError\<close> or
  a \<open>NotImplementedControllerError\<close>, the layer issues the
  \<open>res.status(400).json({ok:false, error})\<close> of any validation failure, with that error
  in the \<open>error\<close> field; on a response on which nothing was sent yet, that 400 is the one
  response sent.
\<close>

theorem validator_marker_error_is_400:
  assumes "get_property tbl (property_key (req_method rq)) = OwnProperty request"
    and "validate (schema request)
           (JObj (spread (spread [] (query rq)) (own_props (body rq)))) = Inl err"
    and "instanceof err NotFoundControllerError \<or> instanceof err NotImplementedControllerError"
  shows "handler tbl rq res =
      respond res 400 (JObj [(''ok'', JBool False), (''error'', err)]) \<and>
    (sent res = [] \<longrightarrow>
       fst (handler tbl rq res) = Inr JUndefined \<and>
       sent (snd (handler tbl rq res)) =
         [(400, JObj [(''ok'', JBool False), (''error'', err)])])"
  using assms(1,2)
  by (simp add: handler_def Let_def respond_def res_json_def res_status_def
      ApiReturns_error_def)

text \<open>Two schemas whose validators reject with the marker errors themselves.\<close>

theorem validator_marker_error_is_400_witness:
  "sent (snd (handler
            [(''GET'', \<lparr>schema = rejecting new_NotFoundControllerError, callback = reply_ok\<rparr>)]
            (sample_request ''GET'') fresh_response)) =
     [(400, JObj [(''ok'', JBool False),
                  (''error'', JError NotFoundControllerError ''Not Found'')])] \<and>
   sent (snd (handler
            [(''GET'', \<lparr>schema = rejecting new_NotImplementedControllerError,
                        callback = reply_ok\<rparr>)]
            (sample_request ''GET'') fresh_response)) =
     [(400, JObj [(''ok'', JBool False),
                  (''error'', JError NotImplementedControllerError ''Not Implemented'')])]"
proof -
  let ?rq = "sample_request ''GET''"
  have new: "sent fresh_response = []" by (simp add: fresh_response_def)
  have w: "sent (snd (handler [(''GET'', \<lparr>schema = rejecting e, callback = reply_ok\<rparr>)]
                        ?rq fresh_response)) =
      [(400, JObj [(''ok'', JBool False), (''error'', e)])]"
    if "instanceof e NotFoundControllerError \<or> instanceof e NotImplementedControllerError"
    for e
    using that validator_marker_error_is_400
      [of "[(''GET'', \<lparr>schema = rejecting e, callback = reply_ok\<rparr>)]" ?rq
          "\<lparr>schema = rejecting e, callback = reply_ok\<rparr>" e fresh_response]
      new
    by (simp add: get_property_def sample_request_def rejecting_def
        respond_def res_json_def res_status_def)
  show ?thesis
    using w [of new_NotFoundControllerError] w [of new_NotImplementedControllerError]
    by (simp add: new_NotFoundControllerError_def new_NotImplementedControllerError_def)
qed

subsection \<open>The dispatch boundary\<close>

text \<open>The two outcomes of \<open>return res.status(code).json(body)\<close>.\<close>

lemma respond_unanswered:
  "sent r = [] \<Longrightarrow>
   respond r code b = (Inr JUndefined, r\<lparr>statusCode := code, sent := [(code, b)]\<rparr>)"
  by (simp add: respond_def res_json_def res_status_def)

lemma respond_answered:
  "sent r \<noteq> [] \<Longrightarrow> respond r code b = (Inl headers_sent_Error, r\<lparr>statusCode := code\<rparr>)"
  by (simp add: respond_def res_json_def res_status_def)

lemma statusCode_respond: "statusCode (snd (respond r code b)) = code"
  by (simp add: respond_def res_json_def res_status_def)

text \<open>After a callback that threw, the layer issues one send on the response it left.\<close>

lemma handler_after_throw:
  assumes "get_property tbl (property_key (req_method rq)) = OwnProperty request"
    and "validate (schema request)
           (JObj (spread (spread [] (query rq)) (own_props (body rq)))) = Inr inp"
    and "callback request \<lparr>input = inp, req = rq\<rparr> res = (Inl err, r)"
  shows "\<exists>code b. code \<in> {404, 405, 500} \<and> handler tbl rq res = respond r code b"
proof -
  have "handler tbl rq res =
      (if instanceof err NotFoundControllerError then respond r 404 ApiReturns_notFound
       else if instanceof err NotImplementedControllerError then respond r 405 ApiReturns_error
       else respond r 500 ApiReturns_error)"
    using assms by (simp add: handler_def Let_def)
  then consider "handler tbl rq res = respond r 404 ApiReturns_notFound"
    | "handler tbl rq res = respond r 405 ApiReturns_error"
    | "handler tbl rq res = respond r 500 ApiReturns_error"
    by (auto split: if_splits)
  then show ?thesis
  proof cases
    case 1
    then show ?thesis by (intro exI [of _ 404] exI [of _ ApiReturns_notFound]) simp
  next
    case 2
    then show ?thesis by (intro exI [of _ 405] exI [of _ ApiReturns_error]) simp
  next
    case 3
    then show ?thesis by (intro exI [of _ 500] exI [of _ ApiReturns_error]) simp
  qed
qed

text \<open>
  C5, as stated, fails. The registered callback answers 200 itself and then throws. The
  layer's \<open>res.status(500).json(...)\<close> in the \<open>catch\<close> block is refused by the response,
  which has sent its headers; that throw is outside every \<open>try\<close>, so the dispatch
  function rejects, and the layer has sent nothing.
\<close>

theorem handler_rejects_counterexample:
  "handler
     [(''GET'', \<lparr>schema = accept_all,
                 callback = answer_then_throw (JError (OtherError ''Error'') ''connection refused'')\<rparr>)]
     (sample_request ''GET'') fresh_response =
   (Inl headers_sent_Error, \<lparr>statusCode = 500, sent = [(200, ApiReturns_ok)]\<rparr>)"
  by (simp add: sample_defs handler_defs)

text \<open>
  C5, amended. On a response on which nothing was sent yet, whatever the table and the
  request, the dispatch function ends in one of four ways. It answered by itself before
  any callback ran, with exactly one response, and resolved to \<open>undefined\<close>. Or the
  registered callback, given the validated input, completed, and its result and its
  response are the dispatch function's. Or the callback threw having sent nothing, and
  the layer answered with exactly one response and resolved to \<open>undefined\<close>. Or the
  callback threw after it had sent a response itself: then the layer's own send is
  refused and the dispatch function rejects with the response's error, nothing more
  being sent. It rejects in no other case.
\<close>

theorem handler_rejects_only_after_answered_callback:
  assumes "sent res = []"
  shows
   "(\<exists>code b. handler tbl rq res =
        (Inr JUndefined, res\<lparr>statusCode := code, sent := [(code, b)]\<rparr>)) \<or>
    (\<exists>request inp.
       get_property tbl (property_key (req_method rq)) = OwnProperty request \<and>
       validate (schema request)
         (JObj (spread (spread [] (query rq)) (own_props (body rq)))) = Inr inp \<and>
       ((\<exists>v r. callback request \<lparr>input = inp, req = rq\<rparr> res = (Inr v, r) \<and>
               handler tbl rq res = (Inr v, r)) \<or>
        (\<exists>err r code b. callback request \<lparr>input = inp, req = rq\<rparr> res = (Inl err, r) \<and>
               sent r = [] \<and>
               handler tbl rq res =
                 (Inr JUndefined, r\<lparr>statusCode := code, sent := [(code, b)]\<rparr>)) \<or>
        (\<exists>err r code. callback request \<lparr>input = inp, req = rq\<rparr> res = (Inl err, r) \<and>
               sent r \<noteq> [] \<and>
               handler tbl rq res = (Inl headers_sent_Error, r\<lparr>statusCode := code\<rparr>))))"
proof (cases "get_property tbl (property_key (req_method rq))")
  case Undefined
  then have "handler tbl rq res = respond res 405 ApiReturns_error"
    by (simp add: handler_def Let_def)
  with respond_unanswered [OF assms] show ?thesis by simp blast
next
  case PrototypeMember
  then have "handler tbl rq res =
      respond res 400
        (JObj (set_prop ''error'' undefined_schema_TypeError
                 (spread [] (own_props ApiReturns_error))))"
    by (simp add: handler_def Let_def)
  with respond_unanswered [OF assms] show ?thesis by simp blast
next
  case (OwnProperty request)
  let ?cand = "JObj (spread (spread [] (query rq)) (own_props (body rq)))"
  show ?thesis
  proof (cases "validate (schema request) ?cand")
    case (Inl err)
    with OwnProperty have "handler tbl rq res =
        respond res 400
          (JObj (set_prop ''error'' err (spread [] (own_props ApiReturns_error))))"
      by (simp add: handler_def Let_def)
    with respond_unanswered [OF assms] show ?thesis by simp blast
  next
    case (Inr inp)
    obtain out r where cb: "callback request \<lparr>input = inp, req = rq\<rparr> res = (out, r)"
      by (cases "callback request \<lparr>input = inp, req = rq\<rparr> res")
    show ?thesis
    proof (cases out)
      case thrown: (Inl err)
      with cb have cb': "callback request \<lparr>input = inp, req = rq\<rparr> res = (Inl err, r)"
        by simp
      from handler_after_throw [OF OwnProperty Inr cb']
      obtain code b where h: "handler tbl rq res = respond r code b" by blast
      show ?thesis
      proof (cases "sent r = []")
        case True
        with h have "handler tbl rq res =
            (Inr JUndefined, r\<lparr>statusCode := code, sent := [(code, b)]\<rparr>)"
          by (simp add: respond_unanswered)
        with OwnProperty Inr cb' True show ?thesis by blast
      next
        case False
        with h have "handler tbl rq res = (Inl headers_sent_Error, r\<lparr>statusCode := code\<rparr>)"
          by (simp add: respond_answered)
        with OwnProperty Inr cb' False show ?thesis by blast
      qed
    next
      case result: (Inr v)
      with cb have cb': "callback request \<lparr>input = inp, req = rq\<rparr> res = (Inr v, r)"
        by simp
      with OwnProperty Inr have "handler tbl rq res = (Inr v, r)"
        by (simp add: handler_def Let_def)
      with OwnProperty Inr cb' show ?thesis by blast
    qed
  qed
qed

text \<open>
  The four endings on a new response: an unregistered method, a callback that answers, a
  callback that throws without answering, a callback that answers and then throws.
\<close>

theorem handler_rejects_only_after_answered_callback_witness:
  "sent fresh_response = [] \<and>
   handler [] (sample_request ''GET'') fresh_response =
     (Inr JUndefined, \<lparr>statusCode = 405, sent = [(405, ApiReturns_error)]\<rparr>) \<and>
   handler [(''GET'', \<lparr>schema = accept_all, callback = reply_ok\<rparr>)]
       (sample_request ''GET'') fresh_response =
     (Inr JUndefined, \<lparr>statusCode = 200, sent = [(200, ApiReturns_ok)]\<rparr>) \<and>
   handler [(''GET'', \<lparr>schema = accept_all, callback = throwing JNull\<rparr>)]
       (sample_request ''GET'') fresh_response =
     (Inr JUndefined, \<lparr>statusCode = 500, sent = [(500, ApiReturns_error)]\<rparr>) \<and>
   handler [(''GET'', \<lparr>schema = accept_all, callback = answer_then_throw JNull\<rparr>)]
       (sample_request ''GET'') fresh_response =
     (Inl headers_sent_Error, \<lparr>statusCode = 500, sent = [(200, ApiReturns_ok)]\<rparr>)"
proof -
  have new: "sent fresh_response = []" by (simp add: fresh_response_def)
  let ?rq = "sample_request ''GET''"
  show ?thesis
    using new
      handler_rejects_only_after_answered_callback [OF new, of "[]" ?rq]
      handler_rejects_only_after_answered_callback
        [OF new, of "[(''GET'', \<lparr>schema = accept_all, callback = reply_ok\<rparr>)]" ?rq]
      handler_rejects_only_after_answered_callback
        [OF new, of "[(''GET'', \<lparr>schema = accept_all, callback = throwing JNull\<rparr>)]" ?rq]
      handler_rejects_only_after_answered_callback
        [OF new, of "[(''GET'', \<lparr>schema = accept_all, callback = answer_then_throw JNull\<rparr>)]" ?rq]
    by (simp add: sample_defs handler_defs)
qed

text \<open>
  C6. The response the dispatch function leaves is the response \<open>r\<close> it was given, or the
  one a registered callback left, either untouched or after one
  \<open>r.status(code).json(b)\<close> of the layer whose status code is 400, 404, 405 or 500: the
  layer sets no other status code.
\<close>

theorem layer_status_codes:
  "\<exists>r. (r = res \<or>
         (\<exists>request ctx. get_property tbl (property_key (req_method rq)) = OwnProperty request \<and>
                         r = snd (callback request ctx res))) \<and>
        (snd (handler tbl rq res) = r \<or>
         (\<exists>code b. code \<in> {400, 404, 405, 500} \<and>
                    snd (handler tbl rq res) = snd (respond r code b) \<and>
                    statusCode (snd (handler tbl rq res)) = code))"
proof -
  have sends: ?thesis
    if "r = res \<or>
        (\<exists>request ctx. get_property tbl (property_key (req_method rq)) = OwnProperty request \<and>
                        r = snd (callback request ctx res))"
      and "code \<in> {400, 404, 405, 500}"
      and "handler tbl rq res = respond r code b" for r code b
  proof -
    from that(3) have "snd (handler tbl rq res) = snd (respond r code b)"
      and "statusCode (snd (handler tbl rq res)) = code"
      by (simp_all add: statusCode_respond)
    with that(1,2) show ?thesis by blast
  qed
  show ?thesis
  proof (cases "get_property tbl (property_key (req_method rq))")
    case Undefined
    then have "handler tbl rq res = respond res 405 ApiReturns_error"
      by (simp add: handler_def Let_def)
    then show ?thesis by (intro sends [of res 405]) simp_all
  next
    case PrototypeMember
    then have "handler tbl rq res =
        respond res 400
          (JObj (set_prop ''error'' undefined_schema_TypeError
                   (spread [] (own_props ApiReturns_error))))"
      by (simp add: handler_def Let_def)
    then show ?thesis by (intro sends [of res 400]) simp_all
  next
    case (OwnProperty request)
    let ?cand = "JObj (spread (spread [] (query rq)) (own_props (body rq)))"
    show ?thesis
    proof (cases "validate (schema request) ?cand")
      case (Inl err)
      with OwnProperty have "handler tbl rq res =
          respond res 400
            (JObj (set_prop ''error'' err (spread [] (own_props ApiReturns_error))))"
        by (simp add: handler_def Let_def)
      then show ?thesis by (intro sends [of res 400]) simp_all
    next
      case (Inr inp)
      let ?ctx = "\<lparr>input = inp, req = rq\<rparr>"
      obtain out r where cb: "callback request ?ctx res = (out, r)"
        by (cases "callback request ?ctx res")
      then have r: "r = snd (callback request ?ctx res)" by simp
      show ?thesis
      proof (cases out)
        case thrown: (Inl err)
        with cb have "callback request ?ctx res = (Inl err, r)" by simp
        from handler_after_throw [OF OwnProperty Inr this]
        obtain code b where "code \<in> {404, 405, 500}" "handler tbl rq res = respond r code b"
          by blast
        moreover from this(1) have "code \<in> {400, 404, 405, 500}" by auto
        ultimately show ?thesis using OwnProperty r by (intro sends [of r code b]) blast+
      next
        case result: (Inr v)
        with cb OwnProperty Inr have "snd (handler tbl rq res) = r"
          by (simp add: handler_def Let_def)
        with OwnProperty r show ?thesis by blast
      qed
    qed
  qed
qed

subsection \<open>Fetch helpers\<close>

text \<open>
  C7. When \<open>fetch\<close> resolves to a response, each of \<open>fetchGet\<close>, \<open>fetchPost\<close> and
  \<open>fetchPut\<close> fails with a \<open>FetchRequestError\<close> exactly when the status of that response
  is at least 300; the error carries that response and the message
  \<open>Error fetching from <url>\<close>. Below 300 the helper gives what \<open>response.json()\<close>
  gives: the decoded body, or its rejection passed through.
\<close>

theorem fetch_status_threshold:
  assumes "fetch rt url
             \<lparr>init_method = ''GET'',
              init_headers = [(''Accept'', ''application/json''),
                              (''Content-Type'', ''application/json;charset=UTF-8'')],
              init_body = None\<rparr> = Inr rg"
    and "fetch rt url
             \<lparr>init_method = ''POST'',
              init_headers = [(''Accept'', ''application/json''),
                              (''Content-Type'', ''application/json;charset=UTF-8'')],
              init_body = JSON_stringify rt data\<rparr> = Inr rp"
    and "fetch rt url
             \<lparr>init_method = ''PUT'',
              init_headers = [(''Accept'', ''application/json''),
                              (''Content-Type'', ''application/json;charset=UTF-8'')],
              init_body = JSON_stringify rt data\<rparr> = Inr ru"
  shows
   "fetchGet rt url =
      (if 300 \<le> status rg then Inl (FetchRequestError rg (''Error fetching from '' @ url))
       else (case json rg of Inl e \<Rightarrow> Inl (Rejected e) | Inr v \<Rightarrow> Inr v)) \<and>
    fetchPost rt url data =
      (if 300 \<le> status rp then Inl (FetchRequestError rp (''Error fetching from '' @ url))
       else (case json rp of Inl e \<Rightarrow> Inl (Rejected e) | Inr v \<Rightarrow> Inr v)) \<and>
    fetchPut rt url data =
      (if 300 \<le> status ru then Inl (FetchRequestError ru (''Error fetching from '' @ url))
       else (case json ru of Inl e \<Rightarrow> Inl (Rejected e) | Inr v \<Rightarrow> Inr v)) \<and>
    ((\<exists>resp msg. fetchGet rt url = Inl (FetchRequestError resp msg)) = (300 \<le> status rg)) \<and>
    ((\<exists>resp msg. fetchPost rt url data = Inl (FetchRequestError resp msg)) =
       (300 \<le> status rp)) \<and>
    ((\<exists>resp msg. fetchPut rt url data = Inl (FetchRequestError resp msg)) =
       (300 \<le> status ru))"
  using assms
  by (auto simp: fetchGet_def fetchPost_def fetchPut_def fetchPostOrPut_def split: sum.splits)

text \<open>Against an endpoint answering 299 all three helpers succeed; against 300 all three fail.\<close>

theorem fetch_status_threshold_witness:
  "fetchGet (answering 299) ''/items'' = Inr (JStr ''payload'') \<and>
   fetchPost (answering 299) ''/items'' (JObj []) = Inr (JStr ''payload'') \<and>
   fetchPut (answering 299) ''/items'' (JObj []) = Inr (JStr ''payload'') \<and>
   fetchGet (answering 300) ''/items'' =
     Inl (FetchRequestError \<lparr>status = 300, json = Inr (JStr ''payload'')\<rparr>
            ''Error fetching from /items'') \<and>
   fetchPost (answering 300) ''/items'' (JObj []) =
     Inl (FetchRequestError \<lparr>status = 300, json = Inr (JStr ''payload'')\<rparr>
            ''Error fetching from /items'') \<and>
   fetchPut (answering 300) ''/items'' (JObj []) =
     Inl (FetchRequestError \<lparr>status = 300, json = Inr (JStr ''payload'')\<rparr>
            ''Error fetching from /items'')"
proof -
  have r: "fetch (answering n) u i = Inr \<lparr>status = n, json = Inr (JStr ''payload'')\<rparr>"
    for n u i
    by (simp add: answering_def)
  show ?thesis
    using
      fetch_status_threshold
        [where rt = "answering 299" and url = "''/items''" and data = "JObj []", OF r r r]
      fetch_status_threshold
        [where rt = "answering 300" and url = "''/items''" and data = "JObj []", OF r r r]
    by simp
qed

text \<open>
  C8. \<open>fetchPost(url, data)\<close> is \<open>fetchPostOrPut("POST", url, data)\<close> and
  \<open>fetchPut(url, data)\<close> is \<open>fetchPostOrPut("PUT", url, data)\<close>. The two differ in the
  verb only: on a platform whose \<open>fetch\<close> overwrites the verb of every request with one
  fixed verb, both wrappers give the same result.
\<close>

theorem fetchPost_fetchPut_delegate:
  "fetchPost rt url data = fetchPostOrPut rt Post url data \<and>
   fetchPut rt url data = fetchPostOrPut rt Put url data \<and>
   fetchPost (rt\<lparr>fetch := \<lambda>u i. fetch rt u (i\<lparr>init_method := verb\<rparr>)\<rparr>) url data =
   fetchPut (rt\<lparr>fetch := \<lambda>u i. fetch rt u (i\<lparr>init_method := verb\<rparr>)\<rparr>) url data"
  by (simp add: fetchPost_def fetchPut_def fetchPostOrPut_def)

end
